theory Spec2Isabelle
  imports Main
begin

section \<open>Values, documents, errors\<close>

text \<open>
  The relationship helpers of \<^verbatim>\<open>server/relationships.ts\<close> run against a Convex
  \<^verbatim>\<open>GenericDatabaseReader\<close>. Identifiers and lookup values are JavaScript values, of
  types the source leaves generic; \<^verbatim>\<open>GenericId\<close> is a branded string at run time.
  \<open>VOther\<close> stands for every value that is not \<^verbatim>\<open>undefined\<close>, \<^verbatim>\<open>null\<close>, a boolean or
  a string (numbers, 64-bit integers, bytes, arrays, objects), in a representation
  \<open>'v\<close> that is left open: everything below holds for every choice of it.
\<close>

datatype 'v val = VUndefined | VNull | VBool bool | VStr string | VOther 'v

text \<open>A document is an object: field name to value, first binding wins.\<close>

type_synonym 'v doc = "(string \<times> 'v val) list"

text \<open>\<^verbatim>\<open>link[toField]\<close>: a property that is not there reads as \<^verbatim>\<open>undefined\<close>.\<close>

definition field_of :: "'v doc \<Rightarrow> string \<Rightarrow> 'v val" where
  "field_of d f = (case map_of d f of None \<Rightarrow> VUndefined | Some v \<Rightarrow> v)"

text \<open>
  A template literal, as the sequence of its pieces: \<open>Lit\<close> is a chunk of literal text,
  \<open>Subst\<close> a substitution \<^verbatim>\<open>${e}\<close> with the value of \<^verbatim>\<open>e\<close>. The pieces are kept
  apart; how JavaScript prints a substituted value is not modelled.
\<close>

datatype 'v part = Lit string | Subst "'v val"

text \<open>
  An exception is a value. \<open>MissingRecord\<close> is what \<^verbatim>\<open>nullThrows\<close> raises, with the
  message it was handed (if any); \<open>StoreError\<close> is anything the database reader
  itself throws.
\<close>

datatype 'v error = MissingRecord "'v part list option" | StoreError string

text \<open>\<^verbatim>\<open>a ?? b\<close> on an optional argument: \<open>None\<close> is the argument left out.\<close>

definition nullish_or :: "'a option \<Rightarrow> 'a \<Rightarrow> 'a" where
  "nullish_or a b = (case a of Some x \<Rightarrow> x | None \<Rightarrow> b)"

section \<open>The database reader\<close>

text \<open>
  The four reads the helpers issue, each of which may throw:
  \<^item> \<open>db_get\<close>: \<^verbatim>\<open>db.get(id)\<close>, a document or \<^verbatim>\<open>null\<close>;
  \<^item> \<open>db_system_get\<close>: \<^verbatim>\<open>db.system.get(id)\<close>;
  \<^item> \<open>db_collect table index field value\<close>:
    \<^verbatim>\<open>db.query(table).withIndex(index, q => q.eq(field, value)).collect()\<close>;
  \<^item> \<open>db_unique table index field value\<close>: the same query ended by \<^verbatim>\<open>.unique()\<close>.
\<close>

record 'v db_reader =
  db_get :: "'v val \<Rightarrow> 'v error + 'v doc option"
  db_system_get :: "'v val \<Rightarrow> 'v error + 'v doc option"
  db_collect :: "string \<Rightarrow> string \<Rightarrow> string \<Rightarrow> 'v val \<Rightarrow> 'v error + 'v doc list"
  db_unique :: "string \<Rightarrow> string \<Rightarrow> string \<Rightarrow> 'v val \<Rightarrow> 'v error + 'v doc option"

text \<open>
  The calls a database handle offers. The last four exist on a writer only; they are
  listed so that "only reads" says something.
\<close>

datatype 'v call =
    DbGet "'v val"
  | DbSystemGet "'v val"
  | DbQueryCollect string string string "'v val"
  | DbQueryUnique string string string "'v val"
  | DbInsert string "'v doc"
  | DbPatch "'v val" "'v doc"
  | DbReplace "'v val" "'v doc"
  | DbDelete "'v val"

fun is_read :: "'v call \<Rightarrow> bool" where
  "is_read (DbGet _) = True"
| "is_read (DbSystemGet _) = True"
| "is_read (DbQueryCollect _ _ _ _) = True"
| "is_read (DbQueryUnique _ _ _ _) = True"
| "is_read (DbInsert _ _) = False"
| "is_read (DbPatch _ _) = False"
| "is_read (DbReplace _ _) = False"
| "is_read (DbDelete _) = False"

text \<open>
  An asynchronous computation: its outcome (\<open>Inl\<close> a rejection) and the database
  calls it issued.
\<close>

type_synonym ('v, 'a) async = "('v error + 'a) \<times> 'v call list"

definition call_get :: "'v db_reader \<Rightarrow> 'v val \<Rightarrow> ('v, 'v doc option) async" where
  "call_get db i = (db_get db i, [DbGet i])"

definition call_system_get :: "'v db_reader \<Rightarrow> 'v val \<Rightarrow> ('v, 'v doc option) async" where
  "call_system_get db i = (db_system_get db i, [DbSystemGet i])"

definition call_collect ::
  "'v db_reader \<Rightarrow> string \<Rightarrow> string \<Rightarrow> string \<Rightarrow> 'v val \<Rightarrow> ('v, 'v doc list) async" where
  "call_collect db t i f v = (db_collect db t i f v, [DbQueryCollect t i f v])"

definition call_unique ::
  "'v db_reader \<Rightarrow> string \<Rightarrow> string \<Rightarrow> string \<Rightarrow> 'v val \<Rightarrow> ('v, 'v doc option) async" where
  "call_unique db t i f v = (db_unique db t i f v, [DbQueryUnique t i f v])"

text \<open>\<^verbatim>\<open>k(await m)\<close>: a rejection of \<open>m\<close> skips \<open>k\<close>.\<close>

definition await_then :: "('v, 'a) async \<Rightarrow> ('a \<Rightarrow> ('v, 'b) async) \<Rightarrow> ('v, 'b) async" where
  "await_then m k =
     (case fst m of
        Inl e \<Rightarrow> (Inl e, snd m)
      | Inr x \<Rightarrow> (fst (k x), snd m @ snd (k x)))"

text \<open>\<^verbatim>\<open>try { m } catch { h }\<close>: the handler does not look at the exception.\<close>

definition try_catch :: "('v, 'a) async \<Rightarrow> ('v, 'a) async \<Rightarrow> ('v, 'a) async" where
  "try_catch m h =
     (case fst m of
        Inl e \<Rightarrow> (fst h, snd m @ snd h)
      | Inr x \<Rightarrow> m)"

definition sync :: "'v error + 'a \<Rightarrow> ('v, 'a) async" where
  "sync r = (r, [])"

section \<open>Helpers imported from the package root\<close>

text \<open>
  Modelled from the spec: \<^verbatim>\<open>nullThrows\<close> is imported from the package's
  \<^verbatim>\<open>index.ts\<close>, which is not among the sources. An absent (\<^verbatim>\<open>null\<close>) argument
  raises an error of kind "missing record" with the message passed by the caller;
  anything else is returned.
\<close>

definition nullThrows :: "'a option \<Rightarrow> 'v part list option \<Rightarrow> 'v error + 'a" where
  "nullThrows d message = (case d of None \<Rightarrow> Inl (MissingRecord message) | Some x \<Rightarrow> Inr x)"

text \<open>
  Modelled from the spec: \<^verbatim>\<open>asyncMap\<close> is imported from the package's
  \<^verbatim>\<open>index.ts\<close>, which is not among the sources. It is "map, then await all": the
  transform is started on every element in iteration order, and the results are
  assembled in input order. The call fails when an element fails, with the error of the
  first failing element in input order, and then gives no list. Every element's
  transform is started whether or not another one fails, so the calls of all elements
  are recorded; they are listed element by element, and nothing below depends on that
  order.
\<close>

fun asyncMap :: "'a list \<Rightarrow> ('a \<Rightarrow> ('v, 'b) async) \<Rightarrow> ('v, 'b list) async" where
  "asyncMap [] f = (Inr [], [])"
| "asyncMap (x # xs) f =
     ((case fst (f x) of
         Inl e \<Rightarrow> Inl e
       | Inr y \<Rightarrow> (case fst (asyncMap xs f) of Inl e \<Rightarrow> Inl e | Inr ys \<Rightarrow> Inr (y # ys))),
      snd (f x) @ snd (asyncMap xs f))"

section \<open>Batch fetch\<close>

definition getAll :: "'v db_reader \<Rightarrow> 'v val list \<Rightarrow> ('v, 'v doc option list) async" where
  "getAll db ids = asyncMap ids (call_get db)"

definition getAllOrThrow :: "'v db_reader \<Rightarrow> 'v val list \<Rightarrow> ('v, 'v doc list) async" where
  "getAllOrThrow db ids =
     asyncMap ids (\<lambda>i. await_then (call_get db i) (\<lambda>d. sync (nullThrows d None)))"

section \<open>Index lookup\<close>

text \<open>
  The type \<^verbatim>\<open>FieldIfDoesntMatchIndex\<close> of the rest argument \<^verbatim>\<open>...fieldArg\<close>, as the
  set of argument lists it accepts. \<open>indexFields\<close> is the index's field list
  \<^verbatim>\<open>DataModel[TableName]["indexes"][IndexName]\<close>, of which only element \<^verbatim>\<open>[0]\<close> is
  read; field and index names are string literal types, for which \<^verbatim>\<open>extends\<close> is
  equality. An index has at least one field.
\<close>

definition FieldIfDoesntMatchIndex :: "string list \<Rightarrow> string \<Rightarrow> string option \<Rightarrow> bool" where
  "FieldIfDoesntMatchIndex indexFields index fieldArg =
     (case indexFields of
        [] \<Rightarrow> False
      | f0 # _ \<Rightarrow>
          if f0 = index then fieldArg = None \<or> fieldArg = Some f0
          else fieldArg = Some f0)"

definition getOneFrom ::
  "'v db_reader \<Rightarrow> string \<Rightarrow> string \<Rightarrow> 'v val \<Rightarrow> string option
     \<Rightarrow> ('v, 'v doc option) async" where
  "getOneFrom db table index value fieldArg =
     (let field = nullish_or fieldArg index
      in call_unique db table index field value)"

definition getOneFromOrThrow ::
  "'v db_reader \<Rightarrow> string \<Rightarrow> string \<Rightarrow> 'v val \<Rightarrow> string option
     \<Rightarrow> ('v, 'v doc) async" where
  "getOneFromOrThrow db table index value fieldArg =
     (let field = nullish_or fieldArg index
      in await_then (call_unique db table index field value)
           (\<lambda>ret. sync (nullThrows ret
              (Some [Lit ''Can't find a document in '', Subst (VStr table),
                     Lit '' with field '', Subst (VStr field),
                     Lit '' equal to '', Subst value]))))"

definition getManyFrom ::
  "'v db_reader \<Rightarrow> string \<Rightarrow> string \<Rightarrow> 'v val \<Rightarrow> string option
     \<Rightarrow> ('v, 'v doc list) async" where
  "getManyFrom db table index value fieldArg =
     (let field = nullish_or fieldArg index
      in call_collect db table index field value)"

section \<open>Join traversal\<close>

definition getManyVia ::
  "'v db_reader \<Rightarrow> string \<Rightarrow> string \<Rightarrow> string \<Rightarrow> 'v val \<Rightarrow> string option
     \<Rightarrow> ('v, 'v doc option list) async" where
  "getManyVia db table toField index value fieldArg =
     await_then (getManyFrom db table index value fieldArg)
       (\<lambda>links. asyncMap links
          (\<lambda>link. let i = field_of link toField
                   in try_catch (call_get db i) (call_system_get db i)))"

text \<open>
  The message both \<^verbatim>\<open>nullThrows\<close> calls of \<^verbatim>\<open>getManyViaOrThrow\<close> build, from the
  same template literal.
\<close>

definition via_message ::
  "'v val \<Rightarrow> string \<Rightarrow> string \<Rightarrow> string option \<Rightarrow> string \<Rightarrow> 'v val \<Rightarrow> 'v part list" where
  "via_message i table toField fieldArg index value =
     [Lit ''Can't find document '', Subst i, Lit '' referenced in '', Subst (VStr table),
      Lit '''s field '', Subst (VStr toField), Lit '' for '',
      Subst (VStr (nullish_or fieldArg index)), Lit '' equal to '', Subst value]"

definition getManyViaOrThrow ::
  "'v db_reader \<Rightarrow> string \<Rightarrow> string \<Rightarrow> string \<Rightarrow> 'v val \<Rightarrow> string option
     \<Rightarrow> ('v, 'v doc list) async" where
  "getManyViaOrThrow db table toField index value fieldArg =
     await_then (getManyFrom db table index value fieldArg)
       (\<lambda>links. asyncMap links
          (\<lambda>link. let i = field_of link toField
                   in try_catch
                        (await_then (call_get db i)
                           (\<lambda>d. sync (nullThrows d
                              (Some (via_message i table toField fieldArg index value)))))
                        (await_then (call_system_get db i)
                           (\<lambda>d. sync (nullThrows d
                              (Some (via_message i table toField fieldArg index value)))))))"

section \<open>Vocabulary of the properties\<close>

text \<open>A lookup resolves an identifier when it completes with a document.\<close>

fun resolves :: "'v error + 'v doc option \<Rightarrow> bool" where
  "resolves (Inr (Some d)) = True"
| "resolves (Inr None) = False"
| "resolves (Inl e) = False"

text \<open>
  The contract of Convex's \<^verbatim>\<open>.unique()\<close> against the same query's \<^verbatim>\<open>.collect()\<close>:
  no match is \<^verbatim>\<open>null\<close>, one match is that document, more than one throws. The query
  methods belong to the database, not to this package, so the contract is a hypothesis
  of the properties that need it, stated for the one query they are about.
\<close>

definition unique_contract :: "'v error + 'v doc list \<Rightarrow> 'v error + 'v doc option \<Rightarrow> bool" where
  "unique_contract q u =
     (case q of
        Inl e \<Rightarrow> u = Inl e
      | Inr [] \<Rightarrow> u = Inr None
      | Inr [d] \<Rightarrow> u = Inr (Some d)
      | Inr (d # d' # ds) \<Rightarrow> isl u)"

text \<open>
  The effect of a sequence of calls on a store of any type \<open>'s\<close>, given the effect
  \<open>eff\<close> of each single call.
\<close>

definition run_calls :: "('v call \<Rightarrow> 's \<Rightarrow> 's) \<Rightarrow> 'v call list \<Rightarrow> 's \<Rightarrow> 's" where
  "run_calls eff cs s = foldl (\<lambda>s' c. eff c s') s cs"

text \<open>The seven exported operations with their arguments, and the calls each issues.\<close>

datatype 'v request =
    GetAll "'v val list"
  | GetAllOrThrow "'v val list"
  | GetOneFrom string string "'v val" "string option"
  | GetOneFromOrThrow string string "'v val" "string option"
  | GetManyFrom string string "'v val" "string option"
  | GetManyVia string string string "'v val" "string option"
  | GetManyViaOrThrow string string string "'v val" "string option"

fun issued_calls :: "'v db_reader \<Rightarrow> 'v request \<Rightarrow> 'v call list" where
  "issued_calls db (GetAll ids) = snd (getAll db ids)"
| "issued_calls db (GetAllOrThrow ids) = snd (getAllOrThrow db ids)"
| "issued_calls db (GetOneFrom t i v fa) = snd (getOneFrom db t i v fa)"
| "issued_calls db (GetOneFromOrThrow t i v fa) = snd (getOneFromOrThrow db t i v fa)"
| "issued_calls db (GetManyFrom t i v fa) = snd (getManyFrom db t i v fa)"
| "issued_calls db (GetManyVia t tf i v fa) = snd (getManyVia db t tf i v fa)"
| "issued_calls db (GetManyViaOrThrow t tf i v fa) = snd (getManyViaOrThrow db t tf i v fa)"

section \<open>A small store\<close>

text \<open>
  The data of \<^verbatim>\<open>convex/relationshipsExample.ts\<close> after \<^verbatim>\<open>sessionId2\<close> is deleted:
  one user, one remaining session, a stored file, two edges from the user to the
  sessions (one now dangling) and one edge from the user to the file. All values are
  strings, so the type of the other values is of no account; it is fixed to \<open>nat\<close>.
\<close>

definition user1 :: "nat doc" where
  "user1 = [(''_id'', VStr ''u1''), (''name'', VStr ''test''), (''tokenIdentifier'', VStr ''test123'')]"

definition session1 :: "nat doc" where
  "session1 = [(''_id'', VStr ''s1''), (''user'', VStr ''u1''), (''room'', VStr ''test'')]"

definition file1 :: "nat doc" where
  "file1 = [(''_id'', VStr ''f1'')]"

definition edge_s2 :: "nat doc" where
  "edge_s2 = [(''_id'', VStr ''e1''), (''userId'', VStr ''u1''), (''sessionId'', VStr ''s2'')]"

definition edge_s1 :: "nat doc" where
  "edge_s1 = [(''_id'', VStr ''e2''), (''userId'', VStr ''u1''), (''sessionId'', VStr ''s1'')]"

definition edge_f1 :: "nat doc" where
  "edge_f1 = [(''_id'', VStr ''e3''), (''userId'', VStr ''u1''), (''storageId'', VStr ''f1'')]"

definition example_collect ::
  "string \<Rightarrow> string \<Rightarrow> string \<Rightarrow> nat val \<Rightarrow> nat error + nat doc list" where
  "example_collect t i f v =
     (if t = ''join_table_example'' \<and> i = ''userId'' \<and> f = ''userId'' \<and> v = VStr ''u1''
        then Inr [edge_s2, edge_s1]
      else if t = ''join_storage_example'' \<and> i = ''userId_storageId'' \<and> f = ''userId''
              \<and> v = VStr ''u1''
        then Inr [edge_f1]
      else if t = ''users'' \<and> i = ''tokenIdentifier'' \<and> f = ''tokenIdentifier''
              \<and> v = VStr ''test123''
        then Inr [user1]
      else Inr [])"

definition example_unique ::
  "string \<Rightarrow> string \<Rightarrow> string \<Rightarrow> nat val \<Rightarrow> nat error + nat doc option" where
  "example_unique t i f v =
     (case example_collect t i f v of
        Inl e \<Rightarrow> Inl e
      | Inr [] \<Rightarrow> Inr None
      | Inr [d] \<Rightarrow> Inr (Some d)
      | Inr (d # d' # ds) \<Rightarrow> Inl (StoreError ''unique() query returned more than one result''))"

text \<open>A reader whose \<^verbatim>\<open>db.get\<close> throws on the identifier of a stored file.\<close>

definition example_db :: "nat db_reader" where
  "example_db =
     \<lparr> db_get = (\<lambda>i. if i = VStr ''u1'' then Inr (Some user1)
                      else if i = VStr ''s1'' then Inr (Some session1)
                      else if i = VStr ''f1'' then Inl (StoreError ''not a user table id'')
                      else Inr None),
       db_system_get = (\<lambda>i. if i = VStr ''f1'' then Inr (Some file1) else Inr None),
       db_collect = example_collect,
       db_unique = example_unique \<rparr>"

text \<open>
  The same data behind a reader whose \<^verbatim>\<open>db.system.get\<close> is as strict as its
  \<^verbatim>\<open>db.get\<close>: it throws on every identifier that is not one of a system table.
\<close>

definition strict_db :: "nat db_reader" where
  "strict_db =
     example_db \<lparr> db_system_get :=
       (\<lambda>i. if i = VStr ''f1'' then Inr (Some file1)
            else Inl (StoreError ''not a system table id'')) \<rparr>"

section \<open>Unfolding the operations and the example store\<close>

lemmas example_defs =
  example_db_def strict_db_def example_collect_def example_unique_def
  user1_def session1_def file1_def edge_s1_def edge_s2_def edge_f1_def

lemmas op_defs =
  getAll_def getAllOrThrow_def getOneFrom_def getOneFromOrThrow_def getManyFrom_def
  getManyVia_def getManyViaOrThrow_def call_get_def call_system_get_def call_collect_def
  call_unique_def await_then_def try_catch_def sync_def nullThrows_def nullish_or_def
  field_of_def Let_def

lemma example_storage_edges:
  "fst (getManyFrom example_db ''join_storage_example'' ''userId_storageId'' (VStr ''u1'')
          (Some ''userId'')) = Inr [edge_f1]"
  by (simp add: getManyFrom_def call_collect_def nullish_or_def Let_def
      example_db_def example_collect_def)

lemma example_session_edges:
  "fst (getManyFrom example_db ''join_table_example'' ''userId'' (VStr ''u1'') None)
     = Inr [edge_s2, edge_s1]"
  by (simp add: getManyFrom_def call_collect_def nullish_or_def Let_def
      example_db_def example_collect_def)

lemma example_targets:
  "field_of edge_f1 ''storageId'' = VStr ''f1''"
  "field_of edge_s2 ''sessionId'' = VStr ''s2''"
  "field_of edge_s1 ''sessionId'' = VStr ''s1''"
  by (simp_all add: field_of_def edge_f1_def edge_s2_def edge_s1_def)

section \<open>Properties of asyncMap\<close>

lemma asyncMap_calls: "snd (asyncMap xs f) = concat (map (\<lambda>x. snd (f x)) xs)"
  by (induction xs) simp_all

lemma asyncMap_Inr_iff:
  "fst (asyncMap xs f) = Inr ys \<longleftrightarrow> map (\<lambda>x. fst (f x)) xs = map Inr ys"
proof (induction xs arbitrary: ys)
  case Nil
  show ?case by auto
next
  case (Cons x xs)
  show ?case
  proof (cases ys)
    case Nil
    then show ?thesis by (simp split: sum.splits)
  next
    case (Cons y ys')
    then show ?thesis using Cons.IH [of ys'] by (auto split: sum.splits)
  qed
qed

lemma asyncMap_isl_iff: "isl (fst (asyncMap xs f)) \<longleftrightarrow> (\<exists>x\<in>set xs. isl (fst (f x)))"
  by (induction xs) (auto split: sum.splits)

lemma asyncMap_Inl_elem: "fst (asyncMap xs f) = Inl e \<Longrightarrow> \<exists>x\<in>set xs. fst (f x) = Inl e"
  by (induction xs) (auto split: sum.splits)

lemma map_eq_elem:
  assumes "map f xs = map g ys" and "x \<in> set xs"
  shows "\<exists>y\<in>set ys. f x = g y"
proof -
  have "f x \<in> set (map f xs)" using assms(2) by simp
  then have "f x \<in> set (map g ys)" using assms(1) by simp
  then show ?thesis by auto
qed

section \<open>Properties of batch fetch\<close>

lemma getAll_calls: "snd (getAll db ids) = map DbGet ids"
  by (induction ids) (simp_all add: getAll_def call_get_def)

lemma getAllOrThrow_calls: "snd (getAllOrThrow db ids) = map DbGet ids"
  by (induction ids)
     (simp_all add: getAllOrThrow_def call_get_def await_then_def sync_def split: sum.splits)

text \<open>
  C4. When the store's get completes for every identifier of \<open>ids\<close>, \<^verbatim>\<open>getAll\<close>
  returns a sequence of the same length whose element at each position is the store's
  answer for the identifier at that position; the element is absent iff the store has no
  document for it.
\<close>

theorem getAll_in_input_order:
  assumes "\<forall>i\<in>set ids. \<not> isl (db_get db i)"
  shows "\<exists>rs. fst (getAll db ids) = Inr rs \<and> length rs = length ids
            \<and> (\<forall>k<length ids. db_get db (ids ! k) = Inr (rs ! k))
            \<and> (\<forall>k<length ids. rs ! k = None \<longleftrightarrow> db_get db (ids ! k) = Inr None)"
proof -
  define rs where "rs = map (\<lambda>i. projr (db_get db i)) ids"
  have "map (\<lambda>i. fst (call_get db i)) ids = map Inr rs"
    using assms by (auto simp: rs_def call_get_def)
  then have "fst (getAll db ids) = Inr rs"
    by (simp add: getAll_def asyncMap_Inr_iff)
  moreover have "length rs = length ids" by (simp add: rs_def)
  moreover have "\<forall>k<length ids. db_get db (ids ! k) = Inr (rs ! k)"
    using assms by (auto simp: rs_def)
  ultimately show ?thesis by auto
qed

theorem getAll_in_input_order_witness:
  "\<exists>rs. fst (getAll example_db [VStr ''u1'', VStr ''u2'']) = Inr rs \<and> length rs = 2
        \<and> rs ! 0 = Some user1 \<and> rs ! 1 = None"
proof -
  have h: "\<forall>i\<in>set [VStr ''u1'', VStr ''u2'']. \<not> isl (db_get example_db i)"
    by (simp add: example_db_def)
  from getAll_in_input_order [OF h] obtain rs where
    rs: "fst (getAll example_db [VStr ''u1'', VStr ''u2'']) = Inr rs"
      "length rs = length [VStr ''u1'', VStr ''u2'' :: nat val]"
      "\<forall>k<length [VStr ''u1'', VStr ''u2'' :: nat val].
          db_get example_db ([VStr ''u1'', VStr ''u2''] ! k) = Inr (rs ! k)"
    by blast
  from rs(3) have "db_get example_db (VStr ''u1'') = Inr (rs ! 0)"
    "db_get example_db (VStr ''u2'') = Inr (rs ! 1)"
    by (auto dest: spec [of _ 0] spec [of _ 1])
  then have "rs ! 0 = Some user1" "rs ! 1 = None"
    by (simp_all add: example_db_def)
  with rs(1,2) show ?thesis by auto
qed

text \<open>
  Where \<^verbatim>\<open>getAll\<close> returns, \<^verbatim>\<open>getAllOrThrow\<close> succeeds iff no element is absent, and
  then returns the documents in input order. Its error is the one \<^verbatim>\<open>nullThrows\<close> raises
  when it is given no message.
\<close>

lemma getAllOrThrow_after_getAll:
  assumes "fst (getAll db ids) = Inr rs"
  shows "fst (getAllOrThrow db ids) =
           (if None \<in> set rs then Inl (MissingRecord None) else Inr (map the rs))"
  using assms
proof (induction ids arbitrary: rs)
  case Nil
  then show ?case by (simp add: getAll_def getAllOrThrow_def)
next
  case (Cons i ids)
  from Cons.prems obtain r rs' where rs: "rs = r # rs'" "db_get db i = Inr r"
    "fst (getAll db ids) = Inr rs'"
    by (auto simp: getAll_def call_get_def split: sum.splits)
  from Cons.IH [OF rs(3)] rs(1,2) show ?case
    by (cases r)
       (auto simp: getAllOrThrow_def call_get_def await_then_def sync_def nullThrows_def
          split: sum.splits)
qed

text \<open>
  C3. \<^verbatim>\<open>getAllOrThrow\<close> on a list with a missing identifier: the call fails, and the
  error carries no message, so it does not name the identifier \<^verbatim>\<open>u2\<close> that is missing.
\<close>

theorem getAllOrThrow_error_names_no_identifier:
  "fst (getAll example_db [VStr ''u1'', VStr ''u2'']) = Inr [Some user1, None]
   \<and> fst (getAllOrThrow example_db [VStr ''u1'', VStr ''u2'']) = Inl (MissingRecord None)"
  by (simp add: getAll_def getAllOrThrow_def call_get_def await_then_def sync_def
      nullThrows_def example_db_def)

section \<open>Properties of index lookup\<close>

lemma getManyFrom_calls:
  "snd (getManyFrom db t i v fa) = [DbQueryCollect t i (nullish_or fa i) v]"
  by (simp add: getManyFrom_def call_collect_def Let_def)

lemma getOneFrom_result: "fst (getOneFrom db t i v fa) = db_unique db t i (nullish_or fa i) v"
  by (simp add: getOneFrom_def call_unique_def Let_def)

lemma getOneFrom_calls: "snd (getOneFrom db t i v fa) = [DbQueryUnique t i (nullish_or fa i) v]"
  by (simp add: getOneFrom_def call_unique_def Let_def)

lemma getOneFromOrThrow_result:
  "fst (getOneFromOrThrow db t i v fa) =
     (case db_unique db t i (nullish_or fa i) v of
        Inl e \<Rightarrow> Inl e
      | Inr ret \<Rightarrow> nullThrows ret
          (Some [Lit ''Can't find a document in '', Subst (VStr t),
                 Lit '' with field '', Subst (VStr (nullish_or fa i)),
                 Lit '' equal to '', Subst v]))"
  by (simp add: getOneFromOrThrow_def call_unique_def await_then_def sync_def Let_def
      split: sum.splits)

lemma getOneFromOrThrow_calls:
  "snd (getOneFromOrThrow db t i v fa) = [DbQueryUnique t i (nullish_or fa i) v]"
  by (simp add: getOneFromOrThrow_def call_unique_def await_then_def sync_def Let_def
      split: sum.splits)

text \<open>
  C7. \<^verbatim>\<open>getManyFrom\<close> returns exactly what the store's index query yields: the same
  documents in the same order, or the same error.
\<close>

theorem getManyFrom_is_the_query:
  "fst (getManyFrom db t i v fa) = db_collect db t i (nullish_or fa i) v"
  by (simp add: getManyFrom_def call_collect_def Let_def)

text \<open>
  C5. For a store whose \<^verbatim>\<open>.unique()\<close> keeps its contract on the query,
  \<^verbatim>\<open>getOneFrom\<close> returns absent iff the query yields the empty sequence, and returns the
  matching document when the query yields exactly one.
\<close>

theorem getOneFrom_absent_iff_no_match:
  assumes "unique_contract (db_collect db t i (nullish_or fa i) v)
             (db_unique db t i (nullish_or fa i) v)"
  shows "(fst (getOneFrom db t i v fa) = Inr None
            \<longleftrightarrow> db_collect db t i (nullish_or fa i) v = Inr [])
       \<and> (\<forall>d. db_collect db t i (nullish_or fa i) v = Inr [d]
            \<longrightarrow> fst (getOneFrom db t i v fa) = Inr (Some d))"
  using assms
  by (auto simp: getOneFrom_result unique_contract_def split: sum.splits list.splits)

theorem getOneFrom_absent_iff_no_match_witness:
  "fst (getOneFrom example_db ''users'' ''tokenIdentifier'' (VStr ''test123'') None)
     = Inr (Some user1)
   \<and> fst (getOneFrom example_db ''users'' ''tokenIdentifier'' (VStr ''test456'') None)
     = Inr None"
proof -
  have h1: "unique_contract
      (db_collect example_db ''users'' ''tokenIdentifier''
         (nullish_or None ''tokenIdentifier'') (VStr ''test123''))
      (db_unique example_db ''users'' ''tokenIdentifier''
         (nullish_or None ''tokenIdentifier'') (VStr ''test123''))"
    by (simp add: unique_contract_def nullish_or_def example_defs)
  have h2: "unique_contract
      (db_collect example_db ''users'' ''tokenIdentifier''
         (nullish_or None ''tokenIdentifier'') (VStr ''test456''))
      (db_unique example_db ''users'' ''tokenIdentifier''
         (nullish_or None ''tokenIdentifier'') (VStr ''test456''))"
    by (simp add: unique_contract_def nullish_or_def example_defs)
  have c1: "db_collect example_db ''users'' ''tokenIdentifier''
         (nullish_or None ''tokenIdentifier'') (VStr ''test123'') = Inr [user1]"
    by (simp add: nullish_or_def example_defs)
  have c2: "db_collect example_db ''users'' ''tokenIdentifier''
         (nullish_or None ''tokenIdentifier'') (VStr ''test456'') = Inr []"
    by (simp add: nullish_or_def example_defs)
  show ?thesis
    using getOneFrom_absent_iff_no_match [OF h1] getOneFrom_absent_iff_no_match [OF h2] c1 c2
    by blast
qed

text \<open>
  C10. When the query has more than one match and the store's \<^verbatim>\<open>.unique()\<close> keeps its
  contract (it throws), \<^verbatim>\<open>getOneFrom\<close> and \<^verbatim>\<open>getOneFromOrThrow\<close> both fail with the error
  that \<^verbatim>\<open>.unique()\<close> threw; neither returns one of the matches.
\<close>

theorem getOneFrom_multiple_matches_raise:
  assumes "unique_contract (db_collect db t i (nullish_or fa i) v)
             (db_unique db t i (nullish_or fa i) v)"
    and "db_collect db t i (nullish_or fa i) v = Inr ds"
    and "1 < length ds"
  shows "\<exists>e. db_unique db t i (nullish_or fa i) v = Inl e
            \<and> fst (getOneFrom db t i v fa) = Inl e
            \<and> fst (getOneFromOrThrow db t i v fa) = Inl e"
proof -
  obtain d d' ds' where "ds = d # d' # ds'"
    using assms(3) by (cases ds; cases "tl ds") auto
  with assms(1,2) have "isl (db_unique db t i (nullish_or fa i) v)"
    by (simp add: unique_contract_def)
  then obtain e where "db_unique db t i (nullish_or fa i) v = Inl e"
    by (cases "db_unique db t i (nullish_or fa i) v") auto
  then show ?thesis
    by (simp add: getOneFrom_result getOneFromOrThrow_result)
qed

theorem getOneFrom_multiple_matches_raise_witness:
  "\<exists>e. fst (getOneFrom example_db ''join_table_example'' ''userId'' (VStr ''u1'') None) = Inl e
      \<and> fst (getOneFromOrThrow example_db ''join_table_example'' ''userId'' (VStr ''u1'') None)
          = Inl e"
proof -
  have h: "unique_contract
      (db_collect example_db ''join_table_example'' ''userId''
         (nullish_or None ''userId'') (VStr ''u1''))
      (db_unique example_db ''join_table_example'' ''userId''
         (nullish_or None ''userId'') (VStr ''u1''))"
    by (simp add: unique_contract_def nullish_or_def example_defs)
  have c: "db_collect example_db ''join_table_example'' ''userId''
         (nullish_or None ''userId'') (VStr ''u1'') = Inr [edge_s2, edge_s1]"
    by (simp add: nullish_or_def example_defs)
  have l: "1 < length [edge_s2, edge_s1]" by simp
  from getOneFrom_multiple_matches_raise [OF h c l] show ?thesis by blast
qed

section \<open>Properties of join traversal\<close>

lemma via_step_result:
  "fst (try_catch (call_get db x) (call_system_get db x)) =
     (case db_get db x of Inl e \<Rightarrow> db_system_get db x | Inr r \<Rightarrow> Inr r)"
  by (simp add: try_catch_def call_get_def call_system_get_def split: sum.splits)

lemma via_step_calls:
  "snd (try_catch (call_get db x) (call_system_get db x)) =
     (if isl (db_get db x) then [DbGet x, DbSystemGet x] else [DbGet x])"
  by (simp add: try_catch_def call_get_def call_system_get_def split: sum.splits)

lemma via_step_isl:
  "isl (fst (try_catch (call_get db x) (call_system_get db x)))
     \<longleftrightarrow> isl (db_get db x) \<and> isl (db_system_get db x)"
  by (simp add: via_step_result split: sum.splits)

lemma via_throw_step_result:
  "fst (try_catch (await_then (call_get db x) (\<lambda>d. sync (nullThrows d (Some m))))
          (await_then (call_system_get db x) (\<lambda>d. sync (nullThrows d (Some m))))) =
     (case db_get db x of
        Inr (Some d) \<Rightarrow> Inr d
      | _ \<Rightarrow> (case db_system_get db x of
                Inl e \<Rightarrow> Inl e
              | Inr None \<Rightarrow> Inl (MissingRecord (Some m))
              | Inr (Some d) \<Rightarrow> Inr d))"
  by (simp add: try_catch_def await_then_def call_get_def call_system_get_def sync_def
      nullThrows_def split: sum.splits option.splits)

lemma via_throw_step_calls:
  "snd (try_catch (await_then (call_get db x) (\<lambda>d. sync (nullThrows d (Some m))))
          (await_then (call_system_get db x) (\<lambda>d. sync (nullThrows d (Some m))))) =
     (if resolves (db_get db x) then [DbGet x] else [DbGet x, DbSystemGet x])"
  by (simp add: try_catch_def await_then_def call_get_def call_system_get_def sync_def
      nullThrows_def split: sum.splits option.splits)

lemma via_throw_step_isl:
  "isl (fst (try_catch (await_then (call_get db x) (\<lambda>d. sync (nullThrows d (Some m))))
          (await_then (call_system_get db x) (\<lambda>d. sync (nullThrows d (Some m))))))
     \<longleftrightarrow> \<not> resolves (db_get db x) \<and> \<not> resolves (db_system_get db x)"
  by (cases "db_get db x" rule: resolves.cases; cases "db_system_get db x" rule: resolves.cases)
     (simp_all add: via_throw_step_result)

lemma not_resolves_iff: "\<not> resolves r \<longleftrightarrow> isl r \<or> r = Inr None"
  by (cases r rule: resolves.cases) simp_all

lemma getManyVia_after_stage1:
  assumes "fst (getManyFrom db t i v fa) = Inr links"
  shows "fst (getManyVia db t tf i v fa) =
           fst (asyncMap links (\<lambda>l. try_catch (call_get db (field_of l tf))
                                       (call_system_get db (field_of l tf))))"
    and "snd (getManyVia db t tf i v fa) =
           DbQueryCollect t i (nullish_or fa i) v
             # concat (map (\<lambda>l. snd (try_catch (call_get db (field_of l tf))
                                        (call_system_get db (field_of l tf)))) links)"
  using assms
  by (simp_all add: getManyVia_def await_then_def Let_def getManyFrom_calls asyncMap_calls)

lemma getManyViaOrThrow_after_stage1:
  assumes "fst (getManyFrom db t i v fa) = Inr links"
  shows "fst (getManyViaOrThrow db t tf i v fa) =
           fst (asyncMap links (\<lambda>l. try_catch
              (await_then (call_get db (field_of l tf))
                 (\<lambda>d. sync (nullThrows d (Some (via_message (field_of l tf) t tf fa i v)))))
              (await_then (call_system_get db (field_of l tf))
                 (\<lambda>d. sync (nullThrows d (Some (via_message (field_of l tf) t tf fa i v)))))))"
    and "snd (getManyViaOrThrow db t tf i v fa) =
           DbQueryCollect t i (nullish_or fa i) v
             # concat (map (\<lambda>l. snd (try_catch
              (await_then (call_get db (field_of l tf))
                 (\<lambda>d. sync (nullThrows d (Some (via_message (field_of l tf) t tf fa i v)))))
              (await_then (call_system_get db (field_of l tf))
                 (\<lambda>d. sync (nullThrows d (Some (via_message (field_of l tf) t tf fa i v))))))) links)"
  using assms
  by (simp_all add: getManyViaOrThrow_def await_then_def Let_def getManyFrom_calls asyncMap_calls)

lemma getManyVia_stage1_fails:
  assumes "fst (getManyFrom db t i v fa) = Inl e"
  shows "fst (getManyVia db t tf i v fa) = Inl e"
    and "fst (getManyViaOrThrow db t tf i v fa) = Inl e"
  using assms by (simp_all add: getManyVia_def getManyViaOrThrow_def await_then_def)

text \<open>
  C1. Taken for granted of the store: an identifier belongs to one kind of table, so one
  for which \<^verbatim>\<open>db.get\<close> answers absent is not one that \<^verbatim>\<open>db.system.get\<close> resolves, and
  on one that makes \<^verbatim>\<open>db.get\<close> throw \<^verbatim>\<open>db.system.get\<close> completes. Then, for the join
  records Stage 1 found, \<^verbatim>\<open>getManyVia\<close> produces exactly one element per join record, in
  the order of the join records: the answer of the primary get when that completes, else
  the answer of the system fallback. The element is absent iff neither the primary get
  nor the system fallback resolves the join record's target identifier.
\<close>

theorem getManyVia_one_element_per_join_record:
  assumes stage1: "fst (getManyFrom db t i v fa) = Inr links"
    and scoped: "\<forall>l\<in>set links. db_get db (field_of l tf) = Inr None
                    \<longrightarrow> \<not> resolves (db_system_get db (field_of l tf))"
    and fallback: "\<forall>l\<in>set links. isl (db_get db (field_of l tf))
                      \<longrightarrow> \<not> isl (db_system_get db (field_of l tf))"
  shows "\<exists>rs. fst (getManyVia db t tf i v fa) = Inr rs \<and> length rs = length links
          \<and> (\<forall>k<length links.
                Inr (rs ! k) = (if isl (db_get db (field_of (links ! k) tf))
                                then db_system_get db (field_of (links ! k) tf)
                                else db_get db (field_of (links ! k) tf)))
          \<and> (\<forall>k<length links.
                rs ! k = None \<longleftrightarrow>
                  \<not> resolves (db_get db (field_of (links ! k) tf))
                  \<and> \<not> resolves (db_system_get db (field_of (links ! k) tf)))"
proof -
  let ?x = "\<lambda>l. field_of l tf"
  let ?step = "\<lambda>l. try_catch (call_get db (?x l)) (call_system_get db (?x l))"
  let ?out = "\<lambda>l. if isl (db_get db (?x l)) then db_system_get db (?x l) else db_get db (?x l)"
  define rs where "rs = map (\<lambda>l. projr (?out l)) links"
  have out: "?out l = Inr (projr (?out l))" if "l \<in> set links" for l
    using fallback that by (auto simp: isl_def split: if_splits)
  have step: "fst (?step l) = ?out l" for l
    by (simp add: via_step_result split: sum.splits)
  have "map (\<lambda>l. fst (?step l)) links = map Inr rs"
    unfolding rs_def step using out by simp
  then have res: "fst (getManyVia db t tf i v fa) = Inr rs"
    by (simp add: getManyVia_after_stage1(1) [OF stage1] asyncMap_Inr_iff)
  have len: "length rs = length links" by (simp add: rs_def)
  have el: "Inr (rs ! k) = ?out (links ! k)" if "k < length links" for k
    using that out [of "links ! k"] by (simp add: rs_def)
  have ab: "rs ! k = None \<longleftrightarrow>
              \<not> resolves (db_get db (?x (links ! k)))
              \<and> \<not> resolves (db_system_get db (?x (links ! k)))"
    if k: "k < length links" for k
  proof -
    have mem: "links ! k \<in> set links" using k by simp
    from scoped mem have s: "db_get db (?x (links ! k)) = Inr None
        \<longrightarrow> \<not> resolves (db_system_get db (?x (links ! k)))" by blast
    from fallback mem have f: "isl (db_get db (?x (links ! k)))
        \<longrightarrow> \<not> isl (db_system_get db (?x (links ! k)))" by blast
    show ?thesis
      using el [OF k] s f
      by (cases "db_get db (?x (links ! k))" rule: resolves.cases;
          cases "db_system_get db (?x (links ! k))" rule: resolves.cases)
         auto
  qed
  show ?thesis using res len el ab by blast
qed

text \<open>
  On the example store: the edge to the stored file resolves through the fallback, and
  of the two edges to sessions the one to the deleted session gives the absent element.
\<close>

theorem getManyVia_one_element_per_join_record_witness:
  "fst (getManyVia example_db ''join_storage_example'' ''storageId'' ''userId_storageId''
          (VStr ''u1'') (Some ''userId'')) = Inr [Some file1]
   \<and> fst (getManyVia example_db ''join_table_example'' ''sessionId'' ''userId''
          (VStr ''u1'') None) = Inr [None, Some session1]"
proof -
  have s1: "\<forall>l\<in>set [edge_f1]. db_get example_db (field_of l ''storageId'') = Inr None
             \<longrightarrow> \<not> resolves (db_system_get example_db (field_of l ''storageId''))"
    by (simp add: example_targets example_db_def)
  have f1: "\<forall>l\<in>set [edge_f1]. isl (db_get example_db (field_of l ''storageId''))
             \<longrightarrow> \<not> isl (db_system_get example_db (field_of l ''storageId''))"
    by (simp add: example_targets example_db_def)
  from getManyVia_one_element_per_join_record [OF example_storage_edges s1 f1]
  obtain rs where rs:
    "fst (getManyVia example_db ''join_storage_example'' ''storageId'' ''userId_storageId''
            (VStr ''u1'') (Some ''userId'')) = Inr rs"
    "length rs = length [edge_f1]"
    "\<forall>k<length [edge_f1].
        Inr (rs ! k) = (if isl (db_get example_db (field_of ([edge_f1] ! k) ''storageId''))
                        then db_system_get example_db (field_of ([edge_f1] ! k) ''storageId'')
                        else db_get example_db (field_of ([edge_f1] ! k) ''storageId''))"
    by blast
  from rs(3) have "rs ! 0 = Some file1"
    by (simp add: example_targets example_db_def)
  with rs(2) have "rs = [Some file1]"
    by (cases rs) simp_all
  with rs(1) have a: "fst (getManyVia example_db ''join_storage_example'' ''storageId''
      ''userId_storageId'' (VStr ''u1'') (Some ''userId'')) = Inr [Some file1]"
    by simp
  have s2: "\<forall>l\<in>set [edge_s2, edge_s1].
      db_get example_db (field_of l ''sessionId'') = Inr None
        \<longrightarrow> \<not> resolves (db_system_get example_db (field_of l ''sessionId''))"
    by (simp add: example_targets example_db_def)
  have f2: "\<forall>l\<in>set [edge_s2, edge_s1]. isl (db_get example_db (field_of l ''sessionId''))
             \<longrightarrow> \<not> isl (db_system_get example_db (field_of l ''sessionId''))"
    by (simp add: example_targets example_db_def)
  from getManyVia_one_element_per_join_record [OF example_session_edges s2 f2]
  obtain qs where qs:
    "fst (getManyVia example_db ''join_table_example'' ''sessionId'' ''userId''
            (VStr ''u1'') None) = Inr qs"
    "length qs = length [edge_s2, edge_s1]"
    "\<forall>k<length [edge_s2, edge_s1].
        Inr (qs ! k) =
          (if isl (db_get example_db (field_of ([edge_s2, edge_s1] ! k) ''sessionId''))
           then db_system_get example_db (field_of ([edge_s2, edge_s1] ! k) ''sessionId'')
           else db_get example_db (field_of ([edge_s2, edge_s1] ! k) ''sessionId''))"
    by blast
  from qs(3) have "Inr (qs ! 0) =
      (if isl (db_get example_db (field_of ([edge_s2, edge_s1] ! 0) ''sessionId''))
       then db_system_get example_db (field_of ([edge_s2, edge_s1] ! 0) ''sessionId'')
       else db_get example_db (field_of ([edge_s2, edge_s1] ! 0) ''sessionId''))"
    "Inr (qs ! 1) =
      (if isl (db_get example_db (field_of ([edge_s2, edge_s1] ! 1) ''sessionId''))
       then db_system_get example_db (field_of ([edge_s2, edge_s1] ! 1) ''sessionId'')
       else db_get example_db (field_of ([edge_s2, edge_s1] ! 1) ''sessionId''))"
    by simp_all
  then have "qs ! 0 = None" "qs ! 1 = Some session1"
    by (simp_all add: example_targets example_db_def)
  with qs(2) have "qs = [None, Some session1]"
    by (cases qs; cases "tl qs") auto
  with qs(1) have b: "fst (getManyVia example_db ''join_table_example'' ''sessionId''
      ''userId'' (VStr ''u1'') None) = Inr [None, Some session1]"
    by simp
  from a b show ?thesis by blast
qed

text \<open>
  When \<^verbatim>\<open>getManyViaOrThrow\<close> raises and with what: after Stage 1 it raises iff for some
  join record neither the primary get nor the system fallback returns a document. The
  error then comes from a join record that the primary get did not resolve, and is
  whatever the system fallback threw, or, where the fallback answered absent, the
  missing-record error with that join record's message. The descriptive error raised
  inside the \<^verbatim>\<open>try\<close> block never reaches the caller.
\<close>

lemma getManyViaOrThrow_raises:
  assumes stage1: "fst (getManyFrom db t i v fa) = Inr links"
  shows "isl (fst (getManyViaOrThrow db t tf i v fa))
           \<longleftrightarrow> (\<exists>l\<in>set links. \<not> resolves (db_get db (field_of l tf))
                               \<and> \<not> resolves (db_system_get db (field_of l tf)))"
    and "fst (getManyViaOrThrow db t tf i v fa) = Inl e \<Longrightarrow>
           \<exists>l\<in>set links. \<not> resolves (db_get db (field_of l tf))
             \<and> (db_system_get db (field_of l tf) = Inl e
                 \<or> db_system_get db (field_of l tf) = Inr None
                    \<and> e = MissingRecord (Some (via_message (field_of l tf) t tf fa i v)))"
proof -
  let ?x = "\<lambda>l. field_of l tf"
  let ?m = "\<lambda>l. via_message (?x l) t tf fa i v"
  let ?stepT = "\<lambda>l. try_catch
      (await_then (call_get db (?x l)) (\<lambda>d. sync (nullThrows d (Some (?m l)))))
      (await_then (call_system_get db (?x l)) (\<lambda>d. sync (nullThrows d (Some (?m l)))))"
  have thr: "fst (getManyViaOrThrow db t tf i v fa) = fst (asyncMap links ?stepT)"
    by (rule getManyViaOrThrow_after_stage1(1) [OF stage1])
  show "isl (fst (getManyViaOrThrow db t tf i v fa))
           \<longleftrightarrow> (\<exists>l\<in>set links. \<not> resolves (db_get db (?x l))
                               \<and> \<not> resolves (db_system_get db (?x l)))"
    unfolding thr asyncMap_isl_iff via_throw_step_isl ..
  show "\<exists>l\<in>set links. \<not> resolves (db_get db (?x l))
             \<and> (db_system_get db (?x l) = Inl e
                 \<or> db_system_get db (?x l) = Inr None \<and> e = MissingRecord (Some (?m l)))"
    if "fst (getManyViaOrThrow db t tf i v fa) = Inl e"
  proof -
    from that obtain l where l: "l \<in> set links" "fst (?stepT l) = Inl e"
      using asyncMap_Inl_elem [of links ?stepT e] by (auto simp: thr)
    have "\<not> resolves (db_get db (?x l))
          \<and> (db_system_get db (?x l) = Inl e
              \<or> db_system_get db (?x l) = Inr None \<and> e = MissingRecord (Some (?m l)))"
      using l(2)
      by (cases "db_get db (?x l)" rule: resolves.cases;
          cases "db_system_get db (?x l)" rule: resolves.cases)
         (simp_all add: via_throw_step_result)
    with l(1) show ?thesis by blast
  qed
qed

text \<open>
  C2. On the reader whose \<^verbatim>\<open>db.system.get\<close> throws on identifiers of user tables, the
  join records of the user are the edge to the deleted session and the edge to the
  remaining one. \<^verbatim>\<open>getManyVia\<close> has an absent element there and \<^verbatim>\<open>getManyViaOrThrow\<close>
  raises, but what it raises is the error of \<^verbatim>\<open>db.system.get\<close>: not the missing-record
  error, whose message names the join collection, the target field and the lookup value.
\<close>

theorem getManyViaOrThrow_raises_fallback_error:
  "fst (getManyFrom strict_db ''join_table_example'' ''userId'' (VStr ''u1'') None)
     = Inr [edge_s2, edge_s1]
   \<and> fst (getManyVia strict_db ''join_table_example'' ''sessionId'' ''userId''
          (VStr ''u1'') None) = Inr [None, Some session1]
   \<and> fst (getManyViaOrThrow strict_db ''join_table_example'' ''sessionId'' ''userId''
          (VStr ''u1'') None) = Inl (StoreError ''not a system table id'')
   \<and> fst (getManyViaOrThrow strict_db ''join_table_example'' ''sessionId'' ''userId''
          (VStr ''u1'') None)
       \<noteq> Inl (MissingRecord (Some (via_message (VStr ''s2'') ''join_table_example''
                ''sessionId'' None ''userId'' (VStr ''u1''))))"
  by (simp add: op_defs example_defs)

text \<open>
  C9. In \<^verbatim>\<open>getManyVia\<close> the system fallback is called for an identifier only when the
  primary get raised on it; where the primary get returns absent, the element is absent.
  In \<^verbatim>\<open>getManyViaOrThrow\<close> the system fallback is called also where the primary get
  returned absent, and where the call then succeeds that element is the fallback's
  document.
\<close>

theorem system_fallback_only_after_primary_raises:
  assumes stage1: "fst (getManyFrom db t i v fa) = Inr links"
  shows "(DbSystemGet x \<in> set (snd (getManyVia db t tf i v fa))
            \<longleftrightarrow> (\<exists>l\<in>set links. field_of l tf = x \<and> isl (db_get db x)))
       \<and> (\<forall>rs k. fst (getManyVia db t tf i v fa) = Inr rs \<and> k < length links
                  \<and> db_get db (field_of (links ! k) tf) = Inr None
            \<longrightarrow> rs ! k = None)
       \<and> (DbSystemGet x \<in> set (snd (getManyViaOrThrow db t tf i v fa))
            \<longleftrightarrow> (\<exists>l\<in>set links. field_of l tf = x
                   \<and> (isl (db_get db x) \<or> db_get db x = Inr None)))
       \<and> (\<forall>rs k. fst (getManyViaOrThrow db t tf i v fa) = Inr rs \<and> k < length links
                  \<and> db_get db (field_of (links ! k) tf) = Inr None
            \<longrightarrow> db_system_get db (field_of (links ! k) tf) = Inr (Some (rs ! k)))"
proof -
  let ?x = "\<lambda>l. field_of l tf"
  let ?m = "\<lambda>l. via_message (?x l) t tf fa i v"
  let ?step = "\<lambda>l. try_catch (call_get db (?x l)) (call_system_get db (?x l))"
  let ?stepT = "\<lambda>l. try_catch
      (await_then (call_get db (?x l)) (\<lambda>d. sync (nullThrows d (Some (?m l)))))
      (await_then (call_system_get db (?x l)) (\<lambda>d. sync (nullThrows d (Some (?m l)))))"
  have A: "DbSystemGet x \<in> set (snd (getManyVia db t tf i v fa))
            \<longleftrightarrow> (\<exists>l\<in>set links. field_of l tf = x \<and> isl (db_get db x))"
    unfolding getManyVia_after_stage1(2) [OF stage1]
    by (auto simp: via_step_calls split: if_splits)
  have C: "DbSystemGet x \<in> set (snd (getManyViaOrThrow db t tf i v fa))
            \<longleftrightarrow> (\<exists>l\<in>set links. field_of l tf = x
                   \<and> (isl (db_get db x) \<or> db_get db x = Inr None))"
    unfolding getManyViaOrThrow_after_stage1(2) [OF stage1] not_resolves_iff [symmetric]
    by (auto simp: via_throw_step_calls split: if_splits)
  have B: "rs ! k = None"
    if "fst (getManyVia db t tf i v fa) = Inr rs" "k < length links"
       "db_get db (?x (links ! k)) = Inr None" for rs k
  proof -
    from that(1) have eq: "map (\<lambda>l. fst (?step l)) links = map Inr rs"
      by (simp add: getManyVia_after_stage1(1) [OF stage1] asyncMap_Inr_iff)
    have len: "length links = length rs"
      using arg_cong [OF eq, of length] by simp
    have "fst (?step (links ! k)) = Inr (rs ! k)"
      using arg_cong [OF eq, of "\<lambda>zs. zs ! k"] that(2) len by simp
    then show ?thesis using that(3) by (simp add: via_step_result)
  qed
  have D: "db_system_get db (?x (links ! k)) = Inr (Some (rs ! k))"
    if "fst (getManyViaOrThrow db t tf i v fa) = Inr rs" "k < length links"
       "db_get db (?x (links ! k)) = Inr None" for rs k
  proof -
    from that(1) have eq: "map (\<lambda>l. fst (?stepT l)) links = map Inr rs"
      by (simp add: getManyViaOrThrow_after_stage1(1) [OF stage1] asyncMap_Inr_iff)
    have len: "length links = length rs"
      using arg_cong [OF eq, of length] by simp
    have "fst (?stepT (links ! k)) = Inr (rs ! k)"
      using arg_cong [OF eq, of "\<lambda>zs. zs ! k"] that(2) len by simp
    then show ?thesis using that(3)
      by (cases "db_system_get db (?x (links ! k))" rule: resolves.cases)
         (auto simp: via_throw_step_result)
  qed
  show ?thesis using A B C D by blast
qed

theorem system_fallback_only_after_primary_raises_witness:
  "DbSystemGet (VStr ''f1'')
     \<in> set (snd (getManyVia example_db ''join_storage_example'' ''storageId''
                   ''userId_storageId'' (VStr ''u1'') (Some ''userId'')))
   \<and> DbSystemGet (VStr ''s2'')
     \<notin> set (snd (getManyVia example_db ''join_table_example'' ''sessionId'' ''userId''
                   (VStr ''u1'') None))
   \<and> DbSystemGet (VStr ''s2'')
     \<in> set (snd (getManyViaOrThrow example_db ''join_table_example'' ''sessionId'' ''userId''
                   (VStr ''u1'') None))"
proof -
  have "\<exists>l\<in>set [edge_f1]. field_of l ''storageId'' = VStr ''f1''
          \<and> isl (db_get example_db (VStr ''f1''))"
    by (simp add: example_targets example_db_def)
  then have a: "DbSystemGet (VStr ''f1'')
     \<in> set (snd (getManyVia example_db ''join_storage_example'' ''storageId''
                   ''userId_storageId'' (VStr ''u1'') (Some ''userId'')))"
    using system_fallback_only_after_primary_raises [OF example_storage_edges,
        of "VStr ''f1''" "''storageId''"] by blast
  have "\<not> (\<exists>l\<in>set [edge_s2, edge_s1]. field_of l ''sessionId'' = VStr ''s2''
          \<and> isl (db_get example_db (VStr ''s2'')))"
    by (simp add: example_targets example_db_def)
  then have b: "DbSystemGet (VStr ''s2'')
     \<notin> set (snd (getManyVia example_db ''join_table_example'' ''sessionId'' ''userId''
                   (VStr ''u1'') None))"
    using system_fallback_only_after_primary_raises [OF example_session_edges,
        of "VStr ''s2''" "''sessionId''"] by blast
  have "\<exists>l\<in>set [edge_s2, edge_s1]. field_of l ''sessionId'' = VStr ''s2''
          \<and> (isl (db_get example_db (VStr ''s2'')) \<or> db_get example_db (VStr ''s2'') = Inr None)"
    by (simp add: example_targets example_db_def)
  then have c: "DbSystemGet (VStr ''s2'')
     \<in> set (snd (getManyViaOrThrow example_db ''join_table_example'' ''sessionId'' ''userId''
                   (VStr ''u1'') None))"
    using system_fallback_only_after_primary_raises [OF example_session_edges,
        of "VStr ''s2''" "''sessionId''"] by blast
  from a b c show ?thesis by blast
qed

section \<open>The field argument\<close>

lemma getManyVia_first_call:
  "\<exists>cs. snd (getManyVia db t tf i v fa) = DbQueryCollect t i (nullish_or fa i) v # cs"
  by (simp add: getManyVia_def await_then_def getManyFrom_calls split: sum.splits)

lemma getManyViaOrThrow_first_call:
  "\<exists>cs. snd (getManyViaOrThrow db t tf i v fa) = DbQueryCollect t i (nullish_or fa i) v # cs"
  by (simp add: getManyViaOrThrow_def await_then_def getManyFrom_calls split: sum.splits)

text \<open>
  C6 (as amended). In all five operations the query is made on the field argument when
  one is supplied and on the index's name otherwise. The field argument may be left out
  exactly when the first field the index declares equals the index's name, and a
  supplied field argument must be that first field.
\<close>

theorem field_argument_resolution:
  "nullish_or (Some f) i = f \<and> nullish_or None i = i
   \<and> snd (getOneFrom db t i v fa) = [DbQueryUnique t i (nullish_or fa i) v]
   \<and> snd (getOneFromOrThrow db t i v fa) = [DbQueryUnique t i (nullish_or fa i) v]
   \<and> snd (getManyFrom db t i v fa) = [DbQueryCollect t i (nullish_or fa i) v]
   \<and> (\<exists>cs. snd (getManyVia db t tf i v fa) = DbQueryCollect t i (nullish_or fa i) v # cs)
   \<and> (\<exists>cs. snd (getManyViaOrThrow db t tf i v fa)
              = DbQueryCollect t i (nullish_or fa i) v # cs)
   \<and> (FieldIfDoesntMatchIndex fs i None \<longleftrightarrow> (\<exists>rest. fs = i # rest))
   \<and> (FieldIfDoesntMatchIndex fs i (Some f) \<longleftrightarrow> (\<exists>rest. fs = f # rest))"
proof -
  have "FieldIfDoesntMatchIndex fs i None \<longleftrightarrow> (\<exists>rest. fs = i # rest)"
    by (cases fs) (simp_all add: FieldIfDoesntMatchIndex_def)
  moreover have "FieldIfDoesntMatchIndex fs i (Some f) \<longleftrightarrow> (\<exists>rest. fs = f # rest)"
    by (cases fs) (auto simp: FieldIfDoesntMatchIndex_def)
  ultimately show ?thesis
    using getManyVia_first_call [of db t tf i v fa]
      getManyViaOrThrow_first_call [of db t tf i v fa]
    by (simp add: nullish_or_def getOneFrom_calls getOneFromOrThrow_calls getManyFrom_calls)
qed

text \<open>
  An index \<^verbatim>\<open>a\<close> on the fields \<^verbatim>\<open>a, b\<close> lets the field argument be left out although
  its field list is not just \<^verbatim>\<open>a\<close>; an index \<^verbatim>\<open>b\<close> on the same fields does not,
  although exactly one of its fields is named \<^verbatim>\<open>b\<close>.
\<close>

theorem field_optional_counterexample:
  "FieldIfDoesntMatchIndex [''a'', ''b''] ''a'' None \<and> [''a'', ''b''] \<noteq> [''a'']
   \<and> \<not> FieldIfDoesntMatchIndex [''a'', ''b''] ''b'' None \<and> count_list [''a'', ''b''] ''b'' = 1"
  by (simp add: FieldIfDoesntMatchIndex_def)

section \<open>The operations only read\<close>

lemma run_reads:
  assumes "list_all is_read cs" and "\<forall>c s'. is_read c \<longrightarrow> eff c s' = s'"
  shows "run_calls eff cs s = s"
  using assms(1) unfolding run_calls_def
  by (induction cs) (simp_all add: assms(2))

lemma getManyVia_calls_read: "list_all is_read (snd (getManyVia db t tf i v fa))"
proof (cases "fst (getManyFrom db t i v fa)")
  case (Inl e)
  then show ?thesis
    by (simp add: getManyVia_def await_then_def getManyFrom_calls)
next
  case (Inr links)
  show ?thesis
    unfolding getManyVia_after_stage1(2) [OF Inr]
    by (auto simp: list_all_iff via_step_calls)
qed

lemma getManyViaOrThrow_calls_read: "list_all is_read (snd (getManyViaOrThrow db t tf i v fa))"
proof (cases "fst (getManyFrom db t i v fa)")
  case (Inl e)
  then show ?thesis
    by (simp add: getManyViaOrThrow_def await_then_def getManyFrom_calls)
next
  case (Inr links)
  show ?thesis
    unfolding getManyViaOrThrow_after_stage1(2) [OF Inr]
    by (auto simp: list_all_iff via_throw_step_calls)
qed

lemma issued_calls_read: "list_all is_read (issued_calls db r)"
proof (cases r)
  case (GetAll ids)
  then show ?thesis by (simp add: getAll_calls list_all_iff)
next
  case (GetAllOrThrow ids)
  then show ?thesis by (simp add: getAllOrThrow_calls list_all_iff)
next
  case (GetOneFrom t i v fa)
  then show ?thesis by (simp add: getOneFrom_calls)
next
  case (GetOneFromOrThrow t i v fa)
  then show ?thesis by (simp add: getOneFromOrThrow_calls)
next
  case (GetManyFrom t i v fa)
  then show ?thesis by (simp add: getManyFrom_calls)
next
  case (GetManyVia t tf i v fa)
  then show ?thesis by (simp add: getManyVia_calls_read)
next
  case (GetManyViaOrThrow t tf i v fa)
  then show ?thesis by (simp add: getManyViaOrThrow_calls_read)
qed

text \<open>
  C8. Each of the seven operations issues only reads (get, system get, index queries).
  Hence, on any store whose reads leave its state alone, the state after the operation
  is the state before it.
\<close>

theorem operations_only_read:
  "list_all is_read (issued_calls db r)
   \<and> ((\<forall>c s'. is_read c \<longrightarrow> eff c s' = s') \<longrightarrow> run_calls eff (issued_calls db r) s = s)"
  using issued_calls_read [of db r] run_reads [of "issued_calls db r" eff s] by blast

theorem operations_only_read_witness:
  "list_all is_read (issued_calls example_db
      (GetManyViaOrThrow ''join_table_example'' ''sessionId'' ''userId'' (VStr ''u1'') None))
   \<and> run_calls (\<lambda>c n. if is_read c then n else Suc n)
        (issued_calls example_db
           (GetManyViaOrThrow ''join_table_example'' ''sessionId'' ''userId'' (VStr ''u1'') None))
        (0::nat) = 0"
  using operations_only_read [of example_db
      "GetManyViaOrThrow ''join_table_example'' ''sessionId'' ''userId'' (VStr ''u1'') None"
      "\<lambda>c n. if is_read c then n else Suc n" "0::nat"]
  by simp

end
